theory Spec2Isabelle
  imports Main "HOL-Library.AList"
begin

section \<open>Size analysis: data\<close>

text \<open>
  The script \<^verbatim>\<open>repo-scripts/size-analysis/analysis.ts\<close> throws
  \<^verbatim>\<open>new Error(ErrorCode.X)\<close> for four members of the enumeration
  \<^verbatim>\<open>ErrorCode\<close> of \<^verbatim>\<open>./analysis-helper\<close>. Every other exception (one of a
  collaborator, of \<^verbatim>\<open>require\<close>, of the \<^verbatim>\<open>fs\<close> and \<^verbatim>\<open>path\<close> modules) is
  \<open>Thrown\<close> with its message.
\<close>

datatype ErrorCode =
    INVALID_FLAG_COMBINATION
  | BUNDLE_FILE_DOES_NOT_EXIST
  | INPUT_FILE_DOES_NOT_EXIST
  | REPORT_REDIRECTION_ERROR

datatype exn = Error ErrorCode | Thrown string

text \<open>
  The four property names of a \<^verbatim>\<open>MemberList\<close> object.
\<close>

datatype category = Classes | Functions | Variables | Enums

fun keyName :: "category \<Rightarrow> string" where
  "keyName Classes = ''classes''"
| "keyName Functions = ''functions''"
| "keyName Variables = ''variables''"
| "keyName Enums = ''enums''"

text \<open>
  Modelled from the spec: the type \<^verbatim>\<open>MemberList\<close> is declared in
  \<^verbatim>\<open>./analysis-helper\<close>, which is not among the source files. It classifies the
  exported symbol names into classes, functions, variables and enums; the script reads
  the four properties by name. The order of the keys of such an object at run time,
  which \<^verbatim>\<open>Object.keys\<close> returns, is fixed where the object is created, in
  \<^verbatim>\<open>extractDeclarations\<close>; neither the source files nor the specification give
  it. It is therefore part of the value: \<open>keyOrder\<close>, for an object of the type an
  arrangement of the four names.
\<close>

record MemberList =
  classes :: "string list"
  "functions" :: "string list"
  variables :: "string list"
  enums :: "string list"
  keyOrder :: "category list"

text \<open>The property \<^verbatim>\<open>api[key]\<close>.\<close>

fun member :: "MemberList \<Rightarrow> category \<Rightarrow> string list" where
  "member api Classes = classes api"
| "member api Functions = functions api"
| "member api Variables = variables api"
| "member api Enums = enums api"

text \<open>
  Modelled from the spec: the type \<^verbatim>\<open>ExportData\<close> is declared in
  \<^verbatim>\<open>./analysis-helper\<close>, which is not among the source files. It holds the
  dependency list of a symbol and its size in bytes, serialised as
  \<^verbatim>\<open>{ dependencies: [...], size: n }\<close>. The field \<open>size_bytes\<close> is the property
  \<^verbatim>\<open>size\<close>.
\<close>

record ExportData =
  dependencies :: "string list"
  size_bytes :: int

text \<open>
  A JavaScript \<^verbatim>\<open>Map\<close> keeps its entries in insertion order, and
  \<^verbatim>\<open>map.set\<close> on a key that is present replaces the value where it stands: an
  association list under \<open>AList.update\<close>, for every key.
\<close>

type_synonym SymbolMap = "(string \<times> string) list"

text \<open>
  The report is a plain object, created as \<^verbatim>\<open>{}\<close>: its own properties in
  insertion order. The assignment \<^verbatim>\<open>result[exp] = value\<close> replaces the value of
  an own property where it stands and adds a new one at the end, with one exception:
  for the name \<^verbatim>\<open>__proto__\<close> the assignment runs the setter that the object
  inherits from \<^verbatim>\<open>Object.prototype\<close>, which makes the value (an object) the
  prototype of the report and adds no own property. \<^verbatim>\<open>JSON.stringify\<close> writes
  own properties only, so the prototype is not kept in the model. Symbol names are
  identifiers, so no property name is integer-like (such names would be listed first).
\<close>

type_synonym Report = "(string \<times> ExportData) list"

definition setProperty :: "string \<Rightarrow> ExportData \<Rightarrow> Report \<Rightarrow> Report" where
  "setProperty exp d result =
     (if exp = ''__proto__'' then result else AList.update exp d result)"

text \<open>
  What has happened so far in a run: one event for each call of a collaborator that
  returned or threw, in call order. An extraction is recorded with its outcome.
\<close>

datatype event =
    ExtractDeclarations string
  | ExtractDependenciesAndSize string string "exn + ExportData"
  | WriteReportToDirectory string string string
  | WriteReportToFile string string
  | MapWorkspaceToPackages "string list"
  | ConsoleLogApi MemberList
  | ConsoleLog string

text \<open>
  The collaborators of the script, which are not among the source files, are parameters:
  the \<^verbatim>\<open>fs\<close> and \<^verbatim>\<open>path\<close> functions of Node and \<^verbatim>\<open>require\<close>, which read
  the file system as the run finds it; the four functions of \<^verbatim>\<open>./analysis-helper\<close>
  and \<^verbatim>\<open>mapWorkspaceToPackages\<close>, whose answer may depend on everything that has
  happened before the call (their first argument). A \<^verbatim>\<open>package.json\<close> read by
  \<^verbatim>\<open>require\<close> is an object from property names to strings; a missing property
  is \<open>None\<close> (\<^verbatim>\<open>undefined\<close>).
\<close>

type_synonym PackageJson = "string \<Rightarrow> string option"

record env =
  existsSync :: "string \<Rightarrow> bool"
  readdirSync :: "string \<Rightarrow> exn + string list"
  lstatSync_isDirectory :: "string \<Rightarrow> exn + bool"
  require :: "string \<Rightarrow> exn + PackageJson"
  resolve :: "string \<Rightarrow> string"
  basename :: "string \<Rightarrow> string"
  extractDeclarations :: "event list \<Rightarrow> string \<Rightarrow> exn + MemberList"
  extractDependenciesAndSize ::
    "event list \<Rightarrow> string \<Rightarrow> string \<Rightarrow> SymbolMap \<Rightarrow> exn + ExportData"
  writeReportToDirectory :: "event list \<Rightarrow> string \<Rightarrow> string \<Rightarrow> string \<Rightarrow> exn + unit"
  writeReportToFile :: "event list \<Rightarrow> string \<Rightarrow> string \<Rightarrow> exn + unit"
  mapWorkspaceToPackages :: "event list \<Rightarrow> string list \<Rightarrow> exn + string list"
  projectRoot :: string

definition TYPINGS :: string where
  "TYPINGS = ''typings''"

definition BUNDLE :: string where
  "BUNDLE = ''esm2017''"

text \<open>
  The script tests optional strings (\<^verbatim>\<open>packageJson[TYPINGS]\<close>, \<^verbatim>\<open>argv.output\<close>)
  by their truth value: \<^verbatim>\<open>undefined\<close> and the empty string are false.
\<close>

fun truthy :: "string option \<Rightarrow> bool" where
  "truthy None = False"
| "truthy (Some s) = (s \<noteq> [])"

text \<open>A template literal writes \<^verbatim>\<open>undefined\<close> as the text \<^verbatim>\<open>undefined\<close>.\<close>

fun interpolate :: "string option \<Rightarrow> string" where
  "interpolate None = ''undefined''"
| "interpolate (Some s) = s"

section \<open>\<^verbatim>\<open>JSON.stringify(result, null, 4)\<close>\<close>

text \<open>
  The serialisation of the report object with a gap of four spaces, following the
  algorithm of the language standard on values of this shape: an object of objects
  with a list of strings and an integer. An empty object is \<^verbatim>\<open>{}\<close> and an empty
  array \<^verbatim>\<open>[]\<close>; otherwise every member stands on a line of its own, indented by
  the gap once more than the enclosing value.
\<close>

definition newline :: string where
  "newline = [CHR 0x0A]"

definition gap :: string where
  "gap = replicate 4 CHR '' ''"

definition hexDigit :: "nat \<Rightarrow> char" where
  "hexDigit n = ''0123456789abcdef'' ! (n mod 16)"

definition QuoteJSONChar :: "char \<Rightarrow> string" where
  "QuoteJSONChar c =
     (if c = CHR 0x22 then [CHR 0x5C, CHR 0x22]
      else if c = CHR 0x5C then [CHR 0x5C, CHR 0x5C]
      else if c = CHR 0x08 then [CHR 0x5C, CHR ''b'']
      else if c = CHR 0x0C then [CHR 0x5C, CHR ''f'']
      else if c = CHR 0x0A then [CHR 0x5C, CHR ''n'']
      else if c = CHR 0x0D then [CHR 0x5C, CHR ''r'']
      else if c = CHR 0x09 then [CHR 0x5C, CHR ''t'']
      else if of_char c < (32 :: nat) then
        [CHR 0x5C, CHR ''u'', CHR ''0'', CHR ''0'',
         hexDigit (of_char c div 16), hexDigit (of_char c)]
      else [c])"

definition QuoteJSONString :: "string \<Rightarrow> string" where
  "QuoteJSONString s = [CHR 0x22] @ concat (map QuoteJSONChar s) @ [CHR 0x22]"

fun digitsOf :: "nat \<Rightarrow> string" where
  "digitsOf n =
     (if n < 10 then [hexDigit n] else digitsOf (n div 10) @ [hexDigit (n mod 10)])"

declare digitsOf.simps [simp del]

definition NumberToString :: "int \<Rightarrow> string" where
  "NumberToString i = (if i < 0 then ''-'' @ digitsOf (nat (- i)) else digitsOf (nat i))"

fun joinWith :: "string \<Rightarrow> string list \<Rightarrow> string" where
  "joinWith sep [] = []"
| "joinWith sep [x] = x"
| "joinWith sep (x # y # ys) = x @ sep @ joinWith sep (y # ys)"

definition wrapMembers :: "string \<Rightarrow> string \<Rightarrow> string \<Rightarrow> string list \<Rightarrow> string" where
  "wrapMembers opening closing stepback partial =
     (let indent = stepback @ gap in
      if partial = [] then opening @ closing
      else opening @ newline @ indent
           @ joinWith ('','' @ newline @ indent) partial
           @ newline @ stepback @ closing)"

definition SerializeJSONArray :: "string \<Rightarrow> string list \<Rightarrow> string" where
  "SerializeJSONArray stepback xs = wrapMembers ''['' '']'' stepback (map QuoteJSONString xs)"

definition SerializeJSONProperty :: "string \<Rightarrow> string \<Rightarrow> string" where
  "SerializeJSONProperty key text = QuoteJSONString key @ '': '' @ text"

definition SerializeExportData :: "string \<Rightarrow> ExportData \<Rightarrow> string" where
  "SerializeExportData stepback d =
     wrapMembers ''{'' ''}'' stepback
       [SerializeJSONProperty ''dependencies''
          (SerializeJSONArray (stepback @ gap) (dependencies d)),
        SerializeJSONProperty ''size'' (NumberToString (size_bytes d))]"

definition JSON_stringify :: "Report \<Rightarrow> string" where
  "JSON_stringify result =
     wrapMembers ''{'' ''}'' []
       (map (\<lambda>(key, d). SerializeJSONProperty key (SerializeExportData gap d)) result)"

section \<open>Size analysis: the report of one module\<close>

text \<open>
  \<^verbatim>\<open>buildMap\<close> walks \<^verbatim>\<open>Object.keys(api)\<close>, that is the keys in the order
  the object has them, and sets, for every element of \<^verbatim>\<open>api[key]\<close>, the entry
  of the element to the key.
\<close>

definition buildMap :: "MemberList \<Rightarrow> SymbolMap" where
  "buildMap api =
     foldl (\<lambda>m key. foldl (\<lambda>m element. AList.update element (keyName key) m) m
                       (member api key))
       [] (keyOrder api)"

text \<open>
  One loop of \<^verbatim>\<open>buildJsonReport\<close>:
  \<^verbatim>\<open>for (const exp of xs) { result[exp] = await extractDependenciesAndSize(exp, jsFile, map); }\<close>.
  An exception of the extractor ends the loop and the function.
\<close>

fun extractEach ::
  "env \<Rightarrow> string list \<Rightarrow> string \<Rightarrow> SymbolMap \<Rightarrow> Report \<Rightarrow> event list
    \<Rightarrow> (exn + Report) \<times> event list" where
  "extractEach E [] jsFile m result tr = (Inr result, tr)"
| "extractEach E (exp # exps) jsFile m result tr =
     (let r = extractDependenciesAndSize E tr exp jsFile m;
          tr' = tr @ [ExtractDependenciesAndSize exp jsFile r]
      in case r of
           Inl e \<Rightarrow> (Inl e, tr')
         | Inr d \<Rightarrow> extractEach E exps jsFile m (setProperty exp d result) tr')"

text \<open>The object \<^verbatim>\<open>result\<close> of \<^verbatim>\<open>buildJsonReport\<close> before it is serialised.\<close>

definition buildResult ::
  "env \<Rightarrow> MemberList \<Rightarrow> string \<Rightarrow> SymbolMap \<Rightarrow> event list \<Rightarrow> (exn + Report) \<times> event list" where
  "buildResult E publicApi jsFile m tr =
     (case extractEach E (classes publicApi) jsFile m [] tr of
        (Inl e, tr1) \<Rightarrow> (Inl e, tr1)
      | (Inr r1, tr1) \<Rightarrow>
     (case extractEach E (functions publicApi) jsFile m r1 tr1 of
        (Inl e, tr2) \<Rightarrow> (Inl e, tr2)
      | (Inr r2, tr2) \<Rightarrow>
     (case extractEach E (variables publicApi) jsFile m r2 tr2 of
        (Inl e, tr3) \<Rightarrow> (Inl e, tr3)
      | (Inr r3, tr3) \<Rightarrow> extractEach E (enums publicApi) jsFile m r3 tr3)))"

definition buildJsonReport ::
  "env \<Rightarrow> MemberList \<Rightarrow> string \<Rightarrow> SymbolMap \<Rightarrow> event list \<Rightarrow> (exn + string) \<times> event list" where
  "buildJsonReport E publicApi jsFile m tr =
     (case buildResult E publicApi jsFile m tr of
        (Inl e, tr') \<Rightarrow> (Inl e, tr')
      | (Inr result, tr') \<Rightarrow> (Inr (JSON_stringify result), tr'))"

definition generateReport ::
  "env \<Rightarrow> string \<Rightarrow> string \<Rightarrow> event list \<Rightarrow> (exn + string) \<times> event list" where
  "generateReport E dtsFile bundleFile tr =
     (let resolvedDtsFile = resolve E dtsFile;
          resolvedBundleFile = resolve E bundleFile
      in if \<not> existsSync E resolvedDtsFile \<or> \<not> existsSync E resolvedBundleFile
         then (Inl (Error INPUT_FILE_DOES_NOT_EXIST), tr)
         else (case extractDeclarations E tr resolvedDtsFile of
                 Inl e \<Rightarrow> (Inl e, tr @ [ExtractDeclarations resolvedDtsFile])
               | Inr publicAPI \<Rightarrow>
                   buildJsonReport E publicAPI bundleFile (buildMap publicAPI)
                     (tr @ [ExtractDeclarations resolvedDtsFile, ConsoleLogApi publicAPI])))"

section \<open>Size analysis: the action on one directory\<close>

definition uploadReportToCI :: "event list \<Rightarrow> event list" where
  "uploadReportToCI tr = tr @ [ConsoleLog ''TODO'']"

text \<open>
  \<^verbatim>\<open>writeReportToDirectory(json, fileName, resolve(outputDirectory))\<close>. The
  parameter \<^verbatim>\<open>outputDirectory\<close> is \<^verbatim>\<open>argv.output\<close>, which is
  \<^verbatim>\<open>undefined\<close> when the flag is absent; \<^verbatim>\<open>resolve\<close> throws a
  \<^verbatim>\<open>TypeError\<close> on it.
\<close>

definition writeToDirectory ::
  "env \<Rightarrow> string \<Rightarrow> string \<Rightarrow> string option \<Rightarrow> event list \<Rightarrow> (exn + unit) \<times> event list" where
  "writeToDirectory E json fileName outputDirectory tr =
     (case outputDirectory of
        None \<Rightarrow> (Inl (Thrown ''TypeError''), tr)
      | Some dir \<Rightarrow>
          (writeReportToDirectory E tr json fileName (resolve E dir),
           tr @ [WriteReportToDirectory json fileName (resolve E dir)]))"

definition generateReportForModule ::
  "env \<Rightarrow> string \<Rightarrow> string option \<Rightarrow> bool \<Rightarrow> bool \<Rightarrow> event list
    \<Rightarrow> (exn + unit) \<times> event list" where
  "generateReportForModule E path outputDirectory writeFiles uploadToCI tr =
     (let packageJsonPath = path @ ''/package.json'' in
      if \<not> existsSync E packageJsonPath then (Inr (), tr)
      else
        (case require E packageJsonPath of
           Inl e \<Rightarrow> (Inl e, tr)
         | Inr packageJson \<Rightarrow>
             if truthy (packageJson TYPINGS) then
               (let dtsFile = path @ ''/'' @ interpolate (packageJson TYPINGS) in
                if \<not> truthy (packageJson BUNDLE)
                then (Inl (Error BUNDLE_FILE_DOES_NOT_EXIST), tr)
                else
                  (let bundleFile = path @ ''/'' @ interpolate (packageJson BUNDLE) in
                   case generateReport E dtsFile bundleFile tr of
                     (Inl e, tr1) \<Rightarrow> (Inl e, tr1)
                   | (Inr json, tr1) \<Rightarrow>
                       (case packageJson ''name'' of
                          None \<Rightarrow> (Inl (Thrown ''TypeError''), tr1)
                        | Some packageName \<Rightarrow>
                            (let fileName = basename E packageName @ ''-dependency.json'' in
                             case (if writeFiles
                                   then writeToDirectory E json fileName outputDirectory tr1
                                   else (Inr (), tr1)) of
                               (Inl e, tr2) \<Rightarrow> (Inl e, tr2)
                             | (Inr _, tr2) \<Rightarrow>
                                 (Inr (), if uploadToCI then uploadReportToCI tr2 else tr2)))))
             else (Inr (), tr)))"

section \<open>Size analysis: the traversal\<close>

text \<open>
  The state of a traversal: \<open>calls\<close> lists, in call order, the directories on which
  \<^verbatim>\<open>traverseDirs\<close> has called its executor (a record that the model keeps; the
  executor cannot change it), \<open>trace\<close> is the history of events, on which the executor
  acts. The levels are integers.
\<close>

record state =
  calls :: "string list"
  trace :: "event list"

type_synonym executor =
  "string \<Rightarrow> string option \<Rightarrow> bool \<Rightarrow> bool \<Rightarrow> event list \<Rightarrow> (exn + unit) \<times> event list"

definition callExecutor ::
  "executor \<Rightarrow> string \<Rightarrow> string option \<Rightarrow> bool \<Rightarrow> bool \<Rightarrow> state \<Rightarrow> (exn + unit) \<times> state" where
  "callExecutor exec moduleLocation outputDirectory writeFiles uploadToCI s =
     (case exec moduleLocation outputDirectory writeFiles uploadToCI (trace s) of
        (r, tr) \<Rightarrow> (r, \<lparr>calls = calls s @ [moduleLocation], trace = tr\<rparr>))"

function traverseDirs ::
    "env \<Rightarrow> string \<Rightarrow> string option \<Rightarrow> bool \<Rightarrow> bool \<Rightarrow> executor \<Rightarrow> int \<Rightarrow> int \<Rightarrow> state
      \<Rightarrow> (exn + unit) \<times> state"
  and traverseNames ::
    "env \<Rightarrow> string \<Rightarrow> string list \<Rightarrow> string option \<Rightarrow> bool \<Rightarrow> bool \<Rightarrow> executor \<Rightarrow> int \<Rightarrow> int
      \<Rightarrow> state \<Rightarrow> (exn + unit) \<times> state" where
  "traverseDirs E moduleLocation outputDirectory writeFiles uploadToCI exec level levelLimit s =
     (if level > levelLimit then (Inr (), s)
      else
        (case callExecutor exec moduleLocation outputDirectory writeFiles uploadToCI s of
           (Inl e, s1) \<Rightarrow> (Inl e, s1)
         | (Inr _, s1) \<Rightarrow>
             (case readdirSync E moduleLocation of
                Inl e \<Rightarrow> (Inl e, s1)
              | Inr names \<Rightarrow>
                  traverseNames E moduleLocation names outputDirectory writeFiles uploadToCI
                    exec level levelLimit s1)))"
| "traverseNames E moduleLocation [] outputDirectory writeFiles uploadToCI exec level levelLimit s =
     (Inr (), s)"
| "traverseNames E moduleLocation (entry # names) outputDirectory writeFiles uploadToCI exec
       level levelLimit s =
     (let p = moduleLocation @ ''/'' @ entry in
      case lstatSync_isDirectory E p of
        Inl e \<Rightarrow> (Inl e, s)
      | Inr False \<Rightarrow>
          traverseNames E moduleLocation names outputDirectory writeFiles uploadToCI exec
            level levelLimit s
      | Inr True \<Rightarrow>
          (case traverseDirs E p outputDirectory writeFiles uploadToCI exec (level + 1)
                  levelLimit s of
             (Inl e, s1) \<Rightarrow> (Inl e, s1)
           | (Inr _, s1) \<Rightarrow>
               traverseNames E moduleLocation names outputDirectory writeFiles uploadToCI exec
                 level levelLimit s1))"
  by pat_completeness auto

termination
  by (relation "measures
       [\<lambda>x. case x of
          Inl (E, loc, out, wr, up, exec, level, levelLimit, s) \<Rightarrow>
            2 * nat (levelLimit + 1 - level)
        | Inr (E, loc, names, out, wr, up, exec, level, levelLimit, s) \<Rightarrow>
            2 * nat (levelLimit - level) + 1,
        \<lambda>x. case x of
          Inl _ \<Rightarrow> 0
        | Inr (E, loc, names, out, wr, up, exec, level, levelLimit, s) \<Rightarrow> length names]")
    auto

text \<open>
  \<^verbatim>\<open>generateReportForModule\<close> is an \<^verbatim>\<open>async\<close> function and
  \<^verbatim>\<open>traverseDirs\<close> drops the promise its call returns: no exception of the action
  reaches the traversal. The model runs the action to its end at the call; in the
  JavaScript run the part of an action after its first \<^verbatim>\<open>await\<close> comes later,
  so the events of different directories may be ordered otherwise than in the trace.
\<close>

definition dropPromise :: "executor \<Rightarrow> executor" where
  "dropPromise action moduleLocation outputDirectory writeFiles uploadToCI tr =
     (Inr (), snd (action moduleLocation outputDirectory writeFiles uploadToCI tr))"

fun generateReportForModules ::
  "env \<Rightarrow> string list \<Rightarrow> string option \<Rightarrow> bool \<Rightarrow> bool \<Rightarrow> state \<Rightarrow> (exn + unit) \<times> state" where
  "generateReportForModules E [] outputDirectory writeFiles uploadToCI s = (Inr (), s)"
| "generateReportForModules E (moduleLocation # moduleLocations) outputDirectory writeFiles
       uploadToCI s =
     (case traverseDirs E moduleLocation outputDirectory writeFiles uploadToCI
             (dropPromise (generateReportForModule E)) 0 1 s of
        (Inl e, s1) \<Rightarrow> (Inl e, s1)
      | (Inr _, s1) \<Rightarrow>
          generateReportForModules E moduleLocations outputDirectory writeFiles uploadToCI s1)"

section \<open>Size analysis: the entry point\<close>

record argv =
  inputModule :: "string list option"
  inputDtsFile :: "string option"
  inputBundleFile :: "string option"
  ci :: bool
  "output" :: "string option"

text \<open>
  \<^verbatim>\<open>allModulesLocation.filter(path => argv.inputModule.includes(require(...).name))\<close>:
  the manifests are read in order, and the first one that cannot be read ends the run.
\<close>

fun filterModules :: "env \<Rightarrow> string list \<Rightarrow> string list \<Rightarrow> exn + string list" where
  "filterModules E wanted [] = Inr []"
| "filterModules E wanted (path # paths) =
     (case require E (path @ ''/package.json'') of
        Inl e \<Rightarrow> Inl e
      | Inr json \<Rightarrow>
          (case filterModules E wanted paths of
             Inl e \<Rightarrow> Inl e
           | Inr rest \<Rightarrow>
               Inr (if (case json ''name'' of None \<Rightarrow> False | Some n \<Rightarrow> n \<in> set wanted)
                    then path # rest else rest)))"

text \<open>
  The adhoc run. \<^verbatim>\<open>main\<close> enters it when the three flags are non-empty
  strings; on \<^verbatim>\<open>undefined\<close>, \<^verbatim>\<open>resolve\<close> would throw a \<^verbatim>\<open>TypeError\<close>.
\<close>

definition adhocRun :: "env \<Rightarrow> argv \<Rightarrow> state \<Rightarrow> (exn + unit) \<times> state" where
  "adhocRun E a s =
     (case (inputDtsFile a, inputBundleFile a, output a) of
        (Some dtsFile, Some bundleFile, Some out) \<Rightarrow>
          (case generateReport E dtsFile bundleFile (trace s) of
             (Inl e, tr) \<Rightarrow> (Inl e, s\<lparr>trace := tr\<rparr>)
           | (Inr jsonReport, tr) \<Rightarrow>
               (writeReportToFile E tr jsonReport (resolve E out),
                s\<lparr>trace := tr @ [WriteReportToFile jsonReport (resolve E out)]\<rparr>))
      | _ \<Rightarrow> (Inl (Thrown ''TypeError''), s))"

definition batchRun :: "env \<Rightarrow> argv \<Rightarrow> state \<Rightarrow> (exn + unit) \<times> state" where
  "batchRun E a s =
     (let pattern = [projectRoot E @ ''/packages-exp/*''];
          s1 = s\<lparr>trace := trace s @ [MapWorkspaceToPackages pattern]\<rparr>
      in case mapWorkspaceToPackages E (trace s) pattern of
           Inl e \<Rightarrow> (Inl e, s1)
         | Inr found \<Rightarrow>
             (case (case inputModule a of
                      None \<Rightarrow> Inr found
                    | Some wanted \<Rightarrow> filterModules E wanted found) of
                Inl e \<Rightarrow> (Inl e, s1)
              | Inr allModulesLocation \<Rightarrow>
                  generateReportForModules E allModulesLocation (output a)
                    (truthy (output a)) (ci a) s1))"

definition main :: "env \<Rightarrow> argv \<Rightarrow> state \<Rightarrow> (exn + unit) \<times> state" where
  "main E a s =
     (if \<not> truthy (output a) \<and> \<not> ci a then (Inl (Error REPORT_REDIRECTION_ERROR), s)
      else if truthy (inputDtsFile a) \<and> truthy (inputBundleFile a) \<and> truthy (output a)
        then adhocRun E a s
      else if \<not> truthy (inputDtsFile a) \<and> \<not> truthy (inputBundleFile a)
        then batchRun E a s
      else (Inl (Error INVALID_FLAG_COMBINATION), s))"

section \<open>Analytics: the internal component\<close>

text \<open>
  The function \<^verbatim>\<open>internalFactory\<close> of the registration file of the analytics
  package. Its collaborators are parameters: the name \<^verbatim>\<open>ANALYTICS_TYPE\<close> of
  \<^verbatim>\<open>./constants\<close>, the function \<^verbatim>\<open>logEvent\<close> of \<^verbatim>\<open>./api\<close>, and the
  container, whose \<^verbatim>\<open>getProvider(name)\<close> and whose providers'
  \<^verbatim>\<open>getImmediate()\<close> return or throw. Of the error codes of \<^verbatim>\<open>./errors\<close>
  the function names one.
\<close>

datatype AnalyticsError = INTEROP_COMPONENT_REG_FAILED

text \<open>
  Modelled from the spec: \<^verbatim>\<open>ERROR_FACTORY.create(code, { reason: e })\<close> of
  \<^verbatim>\<open>./errors\<close>, which is not among the source files, makes one error that
  carries the code and, as its nested reason, the value \<^verbatim>\<open>e\<close>.
\<close>

datatype 'e FirebaseError = FirebaseError AnalyticsError (reason: 'e)

definition ERROR_FACTORY_create :: "AnalyticsError \<Rightarrow> 'e \<Rightarrow> 'e FirebaseError" where
  "ERROR_FACTORY_create code e = FirebaseError code e"

record ('e, 'prov, 'a) ComponentContainer =
  getProvider :: "string \<Rightarrow> 'e + 'prov"
  getImmediate :: "'prov \<Rightarrow> 'e + 'a"

record ('p, 'o, 'r) FirebaseAnalyticsInternal =
  logEvent :: "string \<Rightarrow> 'p option \<Rightarrow> 'o option \<Rightarrow> 'r"

definition internalFactory ::
  "string \<Rightarrow> ('a \<Rightarrow> string \<Rightarrow> 'p option \<Rightarrow> 'o option \<Rightarrow> 'r)
    \<Rightarrow> ('e, 'prov, 'a) ComponentContainer
    \<Rightarrow> 'e FirebaseError + ('p, 'o, 'r) FirebaseAnalyticsInternal" where
  "internalFactory ANALYTICS_TYPE api_logEvent container =
     (case getProvider container ANALYTICS_TYPE of
        Inl e \<Rightarrow> Inl (ERROR_FACTORY_create INTEROP_COMPONENT_REG_FAILED e)
      | Inr provider \<Rightarrow>
          (case getImmediate container provider of
             Inl e \<Rightarrow> Inl (ERROR_FACTORY_create INTEROP_COMPONENT_REG_FAILED e)
           | Inr analytics \<Rightarrow>
               Inr \<lparr>logEvent = \<lambda>eventName eventParams options.
                      api_logEvent analytics eventName eventParams options\<rparr>))"

section \<open>Observations on a run\<close>

text \<open>
  The outcome of the last extraction of a symbol among some events, if there is one.
\<close>

fun lastOutcome :: "string \<Rightarrow> event list \<Rightarrow> (exn + ExportData) option" where
  "lastOutcome exp [] = None"
| "lastOutcome exp (ev # evs) =
     (case lastOutcome exp evs of
        Some r \<Rightarrow> Some r
      | None \<Rightarrow>
          (case ev of
             ExtractDependenciesAndSize x jsFile r \<Rightarrow> if x = exp then Some r else None
           | _ \<Rightarrow> None))"

text \<open>The symbols of the extractions among some events, in call order.\<close>

fun extractedSymbol :: "event \<Rightarrow> string list" where
  "extractedSymbol (ExtractDependenciesAndSize x jsFile r) = [x]"
| "extractedSymbol _ = []"

definition extractedSymbols :: "event list \<Rightarrow> string list" where
  "extractedSymbols evs = concat (map extractedSymbol evs)"

text \<open>The path reached from a directory by going down through the given names.\<close>

definition descend :: "string \<Rightarrow> string list \<Rightarrow> string" where
  "descend root names = foldl (\<lambda>p entry. p @ ''/'' @ entry) root names"

text \<open>
  The names lead down from a directory through subdirectories: each name is listed by
  \<^verbatim>\<open>readdirSync\<close> in the directory reached so far, and is a directory there.
\<close>

fun subdirectories :: "env \<Rightarrow> string \<Rightarrow> string list \<Rightarrow> bool" where
  "subdirectories E loc [] = True"
| "subdirectories E loc (entry # names) =
     ((case readdirSync E loc of Inl e \<Rightarrow> False | Inr listed \<Rightarrow> entry \<in> set listed)
      \<and> lstatSync_isDirectory E (loc @ ''/'' @ entry) = Inr True
      \<and> subdirectories E (loc @ ''/'' @ entry) names)"

text \<open>
  A directory at most \<open>k\<close> levels below a directory, and one at least one and at most
  \<open>k\<close> levels below it.
\<close>

definition within :: "env \<Rightarrow> string \<Rightarrow> int \<Rightarrow> string \<Rightarrow> bool" where
  "within E loc k p =
     (\<exists>names. int (length names) \<le> k \<and> subdirectories E loc names \<and> p = descend loc names)"

definition below :: "env \<Rightarrow> string \<Rightarrow> int \<Rightarrow> string \<Rightarrow> bool" where
  "below E loc k p =
     (\<exists>names. names \<noteq> [] \<and> int (length names) \<le> k \<and> subdirectories E loc names
        \<and> p = descend loc names)"

section \<open>A sample workspace\<close>

text \<open>
  A small file system and collaborators on which the theorems below are run. The module
  directory \<^verbatim>\<open>/ws/pkg\<close> holds a manifest with both entries, the directory
  \<^verbatim>\<open>dist\<close> (with directories two and three levels below the module) and the
  submodule \<^verbatim>\<open>lite\<close>, whose manifest has a \<^verbatim>\<open>typings\<close> entry and no
  \<^verbatim>\<open>esm2017\<close> entry. The declaration file exports the class \<^verbatim>\<open>Bar\<close> and
  the function \<^verbatim>\<open>foo\<close>.
\<close>

definition sampleDirectories :: "(string \<times> string list) list" where
  "sampleDirectories =
     [(''/ws/pkg'', [''package.json'', ''dist'', ''lite'']),
      (''/ws/pkg/dist'', [''index.d.ts'', ''index.esm2017.js'', ''deep'']),
      (''/ws/pkg/dist/deep'', [''deeper'']),
      (''/ws/pkg/dist/deep/deeper'', []),
      (''/ws/pkg/lite'', [''package.json'', ''index.d.ts''])]"

definition sampleFiles :: "string list" where
  "sampleFiles =
     [''/ws/pkg/package.json'', ''/ws/pkg/dist/index.d.ts'',
      ''/ws/pkg/dist/index.esm2017.js'', ''/ws/pkg/lite/package.json'',
      ''/ws/pkg/lite/index.d.ts'']"

definition sampleManifests :: "(string \<times> (string \<times> string) list) list" where
  "sampleManifests =
     [(''/ws/pkg/package.json'',
         [(''name'', ''@firebase/pkg''), (''typings'', ''dist/index.d.ts''),
          (''esm2017'', ''dist/index.esm2017.js'')]),
      (''/ws/pkg/lite/package.json'',
         [(''name'', ''@firebase/pkg-lite''), (''typings'', ''index.d.ts'')])]"

definition sampleApi :: MemberList where
  "sampleApi =
     \<lparr>classes = [''Bar''], functions = [''foo''], variables = [], enums = [],
      keyOrder = [Classes, Functions, Variables, Enums]\<rparr>"

definition sampleExtractor ::
  "event list \<Rightarrow> string \<Rightarrow> string \<Rightarrow> SymbolMap \<Rightarrow> exn + ExportData" where
  "sampleExtractor h exp jsFile m =
     (if exp = ''foo'' then Inr \<lparr>dependencies = [], size_bytes = 10\<rparr>
      else if exp = ''Bar'' then Inr \<lparr>dependencies = [''foo''], size_bytes = 25\<rparr>
      else Inl (Thrown ''symbol not found''))"

definition sampleEnv :: env where
  "sampleEnv =
     \<lparr>existsSync = (\<lambda>p. p \<in> set sampleFiles \<or> p \<in> set (map fst sampleDirectories)),
      readdirSync = (\<lambda>p. case map_of sampleDirectories p of
                             None \<Rightarrow> Inl (Thrown ''ENOENT'')
                           | Some names \<Rightarrow> Inr names),
      lstatSync_isDirectory = (\<lambda>p. Inr (p \<in> set (map fst sampleDirectories))),
      require = (\<lambda>p. case map_of sampleManifests p of
                         None \<Rightarrow> Inl (Thrown ''MODULE_NOT_FOUND'')
                       | Some manifest \<Rightarrow> Inr (map_of manifest)),
      resolve = (\<lambda>p. p),
      basename = (\<lambda>p. rev (takeWhile (\<lambda>c. c \<noteq> CHR ''/'') (rev p))),
      extractDeclarations = (\<lambda>h p. if p = ''/ws/pkg/dist/index.d.ts'' then Inr sampleApi
                                     else Inl (Thrown ''no declarations'')),
      extractDependenciesAndSize = sampleExtractor,
      writeReportToDirectory = (\<lambda>h json fileName dir. Inr ()),
      writeReportToFile = (\<lambda>h json file. Inr ()),
      mapWorkspaceToPackages = (\<lambda>h patterns. Inr [''/ws/pkg'']),
      projectRoot = ''/ws''\<rparr>"

text \<open>
  An extractor whose answer changes from call to call: the size it reports is the number
  of events before the call.
\<close>

definition countingExtractor ::
  "event list \<Rightarrow> string \<Rightarrow> string \<Rightarrow> SymbolMap \<Rightarrow> exn + ExportData" where
  "countingExtractor h exp jsFile m = Inr \<lparr>dependencies = [], size_bytes = int (length h)\<rparr>"

text \<open>A declaration list that names \<^verbatim>\<open>Dup\<close> as a class and as an enum.\<close>

definition overlapApi :: MemberList where
  "overlapApi =
     \<lparr>classes = [''Dup''], functions = [''f''], variables = [], enums = [''Dup''],
      keyOrder = [Classes, Functions, Variables, Enums]\<rparr>"

definition countingEnv :: env where
  "countingEnv = sampleEnv\<lparr>extractDependenciesAndSize := countingExtractor\<rparr>"

text \<open>
  A declaration list whose object has the key \<^verbatim>\<open>functions\<close> before the key
  \<^verbatim>\<open>classes\<close>, and that names \<^verbatim>\<open>X\<close> as a class and as a function.
\<close>

definition reorderedApi :: MemberList where
  "reorderedApi =
     \<lparr>classes = [''X''], functions = [''X''], variables = [], enums = [],
      keyOrder = [Functions, Classes, Variables, Enums]\<rparr>"

text \<open>
  A declaration file that exports the functions \<^verbatim>\<open>__proto__\<close> and \<^verbatim>\<open>foo\<close>
  (\<^verbatim>\<open>export declare function __proto__(): void;\<close>), with an extractor that
  succeeds on every symbol.
\<close>

definition protoApi :: MemberList where
  "protoApi =
     \<lparr>classes = [], functions = [''__proto__'', ''foo''], variables = [], enums = [],
      keyOrder = [Classes, Functions, Variables, Enums]\<rparr>"

definition protoEnv :: env where
  "protoEnv = sampleEnv\<lparr>extractDeclarations := (\<lambda>h p. Inr protoApi),
                          extractDependenciesAndSize := countingExtractor\<rparr>"


text \<open>
  Two containers for the analytics component: one that has the provider, one that has
  none; and a \<^verbatim>\<open>logEvent\<close> that returns its arguments.
\<close>

definition sampleContainer :: "(string, string, nat) ComponentContainer" where
  "sampleContainer =
     \<lparr>getProvider = (\<lambda>n. if n = ''analytics-exp'' then Inr ''analytics provider''
                          else Inl ''no provider''),
      getImmediate = (\<lambda>p. Inr 7)\<rparr>"

definition emptyContainer :: "(string, string, nat) ComponentContainer" where
  "emptyContainer = \<lparr>getProvider = (\<lambda>n. Inl ''no provider''), getImmediate = (\<lambda>p. Inr 7)\<rparr>"

definition sampleLogEvent ::
  "nat \<Rightarrow> string \<Rightarrow> string option \<Rightarrow> string option
    \<Rightarrow> nat \<times> string \<times> string option \<times> string option" where
  "sampleLogEvent analytics eventName eventParams options =
     (analytics, eventName, eventParams, options)"

section \<open>The report of one module: keys and entries\<close>

lemma lastOutcome_snoc:
  "lastOutcome exp (evs @ [ev]) =
     (case ev of
        ExtractDependenciesAndSize x jsFile r \<Rightarrow> if x = exp then Some r else lastOutcome exp evs
      | _ \<Rightarrow> lastOutcome exp evs)"
  by (induction evs) (auto split: event.splits option.splits)

lemma setProperty_keys:
  "set (map fst (setProperty x d result)) = set (map fst result) \<union> ({x} - {''__proto__''})"
  using dom_update [of x d result] by (auto simp add: setProperty_def)

lemma setProperty_distinct:
  "distinct (map fst result) \<Longrightarrow> distinct (map fst (setProperty x d result))"
  by (simp add: setProperty_def distinct_update)

lemma setProperty_lookup:
  "y \<noteq> ''__proto__'' \<Longrightarrow>
     map_of (setProperty x d result) y = (if y = x then Some d else map_of result y)"
  by (simp add: setProperty_def update_conv')

lemma extractEach_run:
  assumes "\<forall>h. \<forall>x\<in>set xs. \<exists>d. extractDependenciesAndSize E h x jsFile m = Inr d"
    and "distinct (map fst result)"
    and "\<forall>x. x \<noteq> ''__proto__'' \<longrightarrow> map_option Inr (map_of result x) = lastOutcome x old"
  shows "\<exists>result' new. extractEach E xs jsFile m result (tr @ old) = (Inr result', tr @ new)
           \<and> distinct (map fst result')
           \<and> set (map fst result') = set (map fst result) \<union> (set xs - {''__proto__''})
           \<and> (\<forall>x. x \<noteq> ''__proto__'' \<longrightarrow> map_option Inr (map_of result' x) = lastOutcome x new)
           \<and> extractedSymbols new = extractedSymbols old @ xs"
  using assms
proof (induction xs arbitrary: result old)
  case Nil
  then show ?case by auto
next
  case (Cons x xs)
  from Cons.prems(1) obtain d where d: "extractDependenciesAndSize E (tr @ old) x jsFile m = Inr d"
    by auto
  let ?old = "old @ [ExtractDependenciesAndSize x jsFile (Inr d)]"
  let ?result = "setProperty x d result"
  have step: "extractEach E (x # xs) jsFile m result (tr @ old)
                = extractEach E xs jsFile m ?result (tr @ ?old)"
    using d by (simp add: Let_def)
  have 1: "\<forall>h. \<forall>y\<in>set xs. \<exists>d. extractDependenciesAndSize E h y jsFile m = Inr d"
    using Cons.prems(1) by simp
  have 2: "distinct (map fst ?result)"
    using Cons.prems(2) by (rule setProperty_distinct)
  have 3: "\<forall>y. y \<noteq> ''__proto__'' \<longrightarrow> map_option Inr (map_of ?result y) = lastOutcome y ?old"
    using Cons.prems(3) by (simp add: lastOutcome_snoc setProperty_lookup)
  from Cons.IH [OF 1 2 3] obtain result' new where
    r: "extractEach E xs jsFile m ?result (tr @ ?old) = (Inr result', tr @ new)"
       "distinct (map fst result')"
       "set (map fst result') = set (map fst ?result) \<union> (set xs - {''__proto__''})"
       "\<forall>y. y \<noteq> ''__proto__'' \<longrightarrow> map_option Inr (map_of result' y) = lastOutcome y new"
       "extractedSymbols new = extractedSymbols ?old @ xs"
    by blast
  from r(3) have keys:
    "set (map fst result') = set (map fst result) \<union> (set (x # xs) - {''__proto__''})"
    unfolding setProperty_keys by auto
  from r(5) have "extractedSymbols new = extractedSymbols old @ x # xs"
    by (simp add: extractedSymbols_def)
  with step r(1,2,4) keys show ?case by auto
qed

lemma buildResult_run:
  assumes "\<forall>h. \<forall>x\<in>set (classes api) \<union> set (functions api) \<union> set (variables api) \<union> set (enums api).
             \<exists>d. extractDependenciesAndSize E h x jsFile m = Inr d"
  shows "\<exists>result new. buildResult E api jsFile m tr = (Inr result, tr @ new)
           \<and> distinct (map fst result)
           \<and> set (map fst result)
               = (set (classes api) \<union> set (functions api) \<union> set (variables api)
                    \<union> set (enums api)) - {''__proto__''}
           \<and> (\<forall>x. x \<noteq> ''__proto__'' \<longrightarrow> map_option Inr (map_of result x) = lastOutcome x new)
           \<and> extractedSymbols new
               = classes api @ functions api @ variables api @ enums api"
proof -
  have a: "\<forall>h. \<forall>x\<in>set (classes api). \<exists>d. extractDependenciesAndSize E h x jsFile m = Inr d"
    and b: "\<forall>h. \<forall>x\<in>set (functions api). \<exists>d. extractDependenciesAndSize E h x jsFile m = Inr d"
    and c: "\<forall>h. \<forall>x\<in>set (variables api). \<exists>d. extractDependenciesAndSize E h x jsFile m = Inr d"
    and d: "\<forall>h. \<forall>x\<in>set (enums api). \<exists>d. extractDependenciesAndSize E h x jsFile m = Inr d"
    using assms by auto
  from extractEach_run [OF a, of "[]" "[]" tr] obtain r1 n1 where
    1: "extractEach E (classes api) jsFile m [] tr = (Inr r1, tr @ n1)"
       "distinct (map fst r1)" "set (map fst r1) = set (classes api) - {''__proto__''}"
       "\<forall>x. x \<noteq> ''__proto__'' \<longrightarrow> map_option Inr (map_of r1 x) = lastOutcome x n1"
       "extractedSymbols n1 = classes api"
    by (auto simp add: extractedSymbols_def)
  from extractEach_run [OF b 1(2) 1(4), of tr] obtain r2 n2 where
    2: "extractEach E (functions api) jsFile m r1 (tr @ n1) = (Inr r2, tr @ n2)"
       "distinct (map fst r2)"
       "set (map fst r2) = set (map fst r1) \<union> (set (functions api) - {''__proto__''})"
       "\<forall>x. x \<noteq> ''__proto__'' \<longrightarrow> map_option Inr (map_of r2 x) = lastOutcome x n2"
       "extractedSymbols n2 = extractedSymbols n1 @ functions api"
    by blast
  from extractEach_run [OF c 2(2) 2(4), of tr] obtain r3 n3 where
    3: "extractEach E (variables api) jsFile m r2 (tr @ n2) = (Inr r3, tr @ n3)"
       "distinct (map fst r3)"
       "set (map fst r3) = set (map fst r2) \<union> (set (variables api) - {''__proto__''})"
       "\<forall>x. x \<noteq> ''__proto__'' \<longrightarrow> map_option Inr (map_of r3 x) = lastOutcome x n3"
       "extractedSymbols n3 = extractedSymbols n2 @ variables api"
    by blast
  from extractEach_run [OF d 3(2) 3(4), of tr] obtain r4 n4 where
    4: "extractEach E (enums api) jsFile m r3 (tr @ n3) = (Inr r4, tr @ n4)"
       "distinct (map fst r4)"
       "set (map fst r4) = set (map fst r3) \<union> (set (enums api) - {''__proto__''})"
       "\<forall>x. x \<noteq> ''__proto__'' \<longrightarrow> map_option Inr (map_of r4 x) = lastOutcome x n4"
       "extractedSymbols n4 = extractedSymbols n3 @ enums api"
    by blast
  have "buildResult E api jsFile m tr = (Inr r4, tr @ n4)"
    by (simp add: buildResult_def 1(1) 2(1) 3(1) 4(1))
  moreover have "set (map fst r4)
      = (set (classes api) \<union> set (functions api) \<union> set (variables api) \<union> set (enums api))
          - {''__proto__''}"
    unfolding 4(3) 3(3) 2(3) 1(3) by blast
  moreover have "extractedSymbols n4
      = classes api @ functions api @ variables api @ enums api"
    using 1(5) 2(5) 3(5) 4(5) by simp
  ultimately show ?thesis using 4(2,4) by blast
qed

lemma foldl_update_lookup:
  "map_of (foldl (\<lambda>m element. AList.update element key m) m xs) x
     = (if x \<in> set xs then Some key else map_of m x)"
  by (induction xs arbitrary: m) (auto simp add: update_conv')

lemma foldl_update_distinct:
  "distinct (map fst m) \<Longrightarrow> distinct (map fst (foldl (\<lambda>m element. AList.update element key m) m xs))"
  by (induction xs arbitrary: m) (auto simp add: distinct_update)

lemma foldl_keys_lookup:
  "map_of (foldl (\<lambda>m key. foldl (\<lambda>m element. AList.update element (keyName key) m) m
                              (member api key)) m cs) x
     = (case rev [c\<leftarrow>cs. x \<in> set (member api c)] of
          [] \<Rightarrow> map_of m x
        | c # _ \<Rightarrow> Some (keyName c))"
  by (induction cs rule: rev_induct) (simp_all add: foldl_update_lookup)

lemma foldl_keys_distinct:
  "distinct (map fst m) \<Longrightarrow>
     distinct (map fst (foldl (\<lambda>m key. foldl (\<lambda>m element. AList.update element (keyName key) m) m
                              (member api key)) m cs))"
  by (induction cs rule: rev_induct) (simp_all add: foldl_update_distinct)

lemma buildMap_lookup:
  "map_of (buildMap api) x =
     (case rev [c\<leftarrow>keyOrder api. x \<in> set (member api c)] of
        [] \<Rightarrow> None
      | c # _ \<Rightarrow> Some (keyName c))"
  by (simp add: buildMap_def foldl_keys_lookup split: list.splits)

lemma buildMap_distinct: "distinct (map fst (buildMap api))"
  by (simp add: buildMap_def foldl_keys_distinct)

lemma proto_members:
  "classes protoApi = []" "functions protoApi = [''__proto__'', ''foo'']"
  "variables protoApi = []" "enums protoApi = []"
  by (simp_all add: protoApi_def)

lemma buildJsonReport_run_proto:
  "fst (buildJsonReport protoEnv protoApi ''/ws/pkg/dist/index.esm2017.js''
          (buildMap protoApi)
          [ExtractDeclarations ''/ws/pkg/dist/index.d.ts'', ConsoleLogApi protoApi])
     = Inr (JSON_stringify [(''foo'', \<lparr>dependencies = [], size_bytes = 3\<rparr>)])"
  by (simp add: buildJsonReport_def buildResult_def Let_def setProperty_def protoEnv_def
      countingExtractor_def proto_members)

text \<open>
  Claim C1: every symbol name of the extracted \<^verbatim>\<open>MemberList\<close> is a key of the
  report, once, and there is no other key. The code does not keep the claim for the
  symbol name \<^verbatim>\<open>__proto__\<close>. For a declaration file that exports the functions
  \<^verbatim>\<open>__proto__\<close> and \<^verbatim>\<open>foo\<close>, with both files present and both symbols
  extracted, the report object of \<^verbatim>\<open>buildJsonReport\<close> has the one key
  \<^verbatim>\<open>foo\<close>, and its serialisation is what is returned: the symbol
  \<^verbatim>\<open>__proto__\<close> is dropped without an error.
\<close>

theorem buildJsonReport_proto_key_lost:
  "extractDeclarations protoEnv [] ''/ws/pkg/dist/index.d.ts'' = Inr protoApi
   \<and> functions protoApi = [''__proto__'', ''foo'']
   \<and> fst (buildResult protoEnv protoApi ''/ws/pkg/dist/index.esm2017.js'' (buildMap protoApi)
            [ExtractDeclarations ''/ws/pkg/dist/index.d.ts'', ConsoleLogApi protoApi])
       = Inr [(''foo'', \<lparr>dependencies = [], size_bytes = 3\<rparr>)]
   \<and> fst (buildJsonReport protoEnv protoApi ''/ws/pkg/dist/index.esm2017.js''
            (buildMap protoApi)
            [ExtractDeclarations ''/ws/pkg/dist/index.d.ts'', ConsoleLogApi protoApi])
       = Inr (JSON_stringify [(''foo'', \<lparr>dependencies = [], size_bytes = 3\<rparr>)])"
proof -
  have 1: "extractDeclarations protoEnv [] ''/ws/pkg/dist/index.d.ts'' = Inr protoApi"
    by (simp add: protoEnv_def)
  have 3: "buildResult protoEnv protoApi ''/ws/pkg/dist/index.esm2017.js'' (buildMap protoApi)
            [ExtractDeclarations ''/ws/pkg/dist/index.d.ts'', ConsoleLogApi protoApi]
       = (Inr [(''foo'', \<lparr>dependencies = [], size_bytes = 3\<rparr>)],
          [ExtractDeclarations ''/ws/pkg/dist/index.d.ts'', ConsoleLogApi protoApi,
           ExtractDependenciesAndSize ''__proto__'' ''/ws/pkg/dist/index.esm2017.js''
             (Inr \<lparr>dependencies = [], size_bytes = 2\<rparr>),
           ExtractDependenciesAndSize ''foo'' ''/ws/pkg/dist/index.esm2017.js''
             (Inr \<lparr>dependencies = [], size_bytes = 3\<rparr>)])"
    by (simp add: buildResult_def Let_def setProperty_def protoEnv_def countingExtractor_def
        proto_members)
  from 3 have 4: "fst (buildJsonReport protoEnv protoApi ''/ws/pkg/dist/index.esm2017.js''
            (buildMap protoApi)
            [ExtractDeclarations ''/ws/pkg/dist/index.d.ts'', ConsoleLogApi protoApi])
       = Inr (JSON_stringify [(''foo'', \<lparr>dependencies = [], size_bytes = 3\<rparr>)])"
    by (simp add: buildJsonReport_def)
  from 1 proto_members(2) 3 4 show ?thesis by simp
qed

text \<open>
  The entry point of the report does the same: with both files present,
  \<^verbatim>\<open>generateReport\<close> returns that text.
\<close>

lemma generateReport_proto:
  "fst (generateReport protoEnv ''/ws/pkg/dist/index.d.ts'' ''/ws/pkg/dist/index.esm2017.js'' [])
     = Inr (JSON_stringify [(''foo'', \<lparr>dependencies = [], size_bytes = 3\<rparr>)])"
proof -
  have "existsSync protoEnv (resolve protoEnv ''/ws/pkg/dist/index.d.ts'')"
    "existsSync protoEnv (resolve protoEnv ''/ws/pkg/dist/index.esm2017.js'')"
    "resolve protoEnv ''/ws/pkg/dist/index.d.ts'' = ''/ws/pkg/dist/index.d.ts''"
    "extractDeclarations protoEnv [] ''/ws/pkg/dist/index.d.ts'' = Inr protoApi"
    by (simp_all add: protoEnv_def sampleEnv_def sampleFiles_def)
  then have "generateReport protoEnv ''/ws/pkg/dist/index.d.ts''
      ''/ws/pkg/dist/index.esm2017.js'' []
    = buildJsonReport protoEnv protoApi ''/ws/pkg/dist/index.esm2017.js'' (buildMap protoApi)
        [ExtractDeclarations ''/ws/pkg/dist/index.d.ts'', ConsoleLogApi protoApi]"
    by (simp add: generateReport_def)
  then show ?thesis
    using buildJsonReport_run_proto by simp
qed

text \<open>
  Apart from that name the keys are as expected: for files that exist, with the
  declarations extracted and every extraction succeeding, the keys of the report are
  distinct and are the symbol names other than \<^verbatim>\<open>__proto__\<close>.
\<close>

lemma generateReport_keys_apart:
  assumes "existsSync E (resolve E dtsFile)" and "existsSync E (resolve E bundleFile)"
    and "extractDeclarations E tr (resolve E dtsFile) = Inr api"
    and "\<forall>h. \<forall>x\<in>set (classes api) \<union> set (functions api) \<union> set (variables api) \<union> set (enums api).
           \<exists>d. extractDependenciesAndSize E h x bundleFile (buildMap api) = Inr d"
  shows "\<exists>result tr'.
           buildResult E api bundleFile (buildMap api)
               (tr @ [ExtractDeclarations (resolve E dtsFile), ConsoleLogApi api])
             = (Inr result, tr')
           \<and> generateReport E dtsFile bundleFile tr = (Inr (JSON_stringify result), tr')
           \<and> distinct (map fst result)
           \<and> set (map fst result)
               = (set (classes api) \<union> set (functions api) \<union> set (variables api)
                    \<union> set (enums api)) - {''__proto__''}"
proof -
  let ?tr = "tr @ [ExtractDeclarations (resolve E dtsFile), ConsoleLogApi api]"
  from buildResult_run [OF assms(4), of ?tr] obtain result new where
    r: "buildResult E api bundleFile (buildMap api) ?tr = (Inr result, ?tr @ new)"
       "distinct (map fst result)"
       "set (map fst result)
          = (set (classes api) \<union> set (functions api) \<union> set (variables api) \<union> set (enums api))
              - {''__proto__''}"
    by blast
  have "generateReport E dtsFile bundleFile tr = (Inr (JSON_stringify result), ?tr @ new)"
    using assms(1-3) r(1) by (simp add: generateReport_def buildJsonReport_def)
  with r show ?thesis by blast
qed

text \<open>
  Claim C10, as stated: \<^verbatim>\<open>buildMap\<close> maps a symbol that is in several
  categories to the last of them in the order classes, functions, variables, enums. It
  fails for a \<^verbatim>\<open>MemberList\<close> object whose keys stand in another order:
  \<^verbatim>\<open>buildMap\<close> follows \<^verbatim>\<open>Object.keys(api)\<close>. With the key
  \<^verbatim>\<open>functions\<close> before the key \<^verbatim>\<open>classes\<close>, a symbol that is a class and a
  function is mapped to \<^verbatim>\<open>classes\<close>, not to \<^verbatim>\<open>functions\<close>.
\<close>

theorem buildMap_key_order_counterexample:
  "classes reorderedApi = [''X''] \<and> functions reorderedApi = [''X'']
   \<and> buildMap reorderedApi = [(''X'', ''classes'')]
   \<and> map_of (buildMap reorderedApi) ''X'' \<noteq> Some ''functions''"
  by (simp add: buildMap_def reorderedApi_def)

text \<open>
  Claim C10, amended. A symbol name in more than one category raises no error.
  \<^verbatim>\<open>buildMap\<close> maps every symbol to the last category that contains it in the
  order of the keys of the \<^verbatim>\<open>MemberList\<close> object, with one entry for each symbol.
  When every extraction succeeds, \<^verbatim>\<open>buildJsonReport\<close> returns the serialisation of
  a report object with distinct keys; the symbols are extracted in the order classes,
  functions, variables, enums; and a symbol name other than \<^verbatim>\<open>__proto__\<close> has
  an entry if and only if it is in some category, the entry being the outcome of the
  last extraction of that symbol: a result obtained earlier is overwritten.
\<close>

theorem buildJsonReport_overwrites:
  assumes "\<forall>h. \<forall>x\<in>set (classes api) \<union> set (functions api) \<union> set (variables api) \<union> set (enums api).
             \<exists>d. extractDependenciesAndSize E h x jsFile (buildMap api) = Inr d"
  shows "(\<forall>x. map_of (buildMap api) x =
            (case rev [c\<leftarrow>keyOrder api. x \<in> set (member api c)] of
               [] \<Rightarrow> None
             | c # _ \<Rightarrow> Some (keyName c)))
         \<and> distinct (map fst (buildMap api))
         \<and> (\<exists>result new.
               buildResult E api jsFile (buildMap api) tr = (Inr result, tr @ new)
               \<and> buildJsonReport E api jsFile (buildMap api) tr
                   = (Inr (JSON_stringify result), tr @ new)
               \<and> distinct (map fst result)
               \<and> extractedSymbols new
                   = classes api @ functions api @ variables api @ enums api
               \<and> (\<forall>x. x \<noteq> ''__proto__'' \<longrightarrow>
                     (x \<in> set (map fst result))
                       = (x \<in> set (classes api) \<union> set (functions api) \<union> set (variables api)
                              \<union> set (enums api))
                     \<and> map_option Inr (map_of result x) = lastOutcome x new))"
proof -
  from buildResult_run [OF assms, of tr] obtain result new where
    r: "buildResult E api jsFile (buildMap api) tr = (Inr result, tr @ new)"
       "distinct (map fst result)"
       "set (map fst result)
          = (set (classes api) \<union> set (functions api) \<union> set (variables api) \<union> set (enums api))
              - {''__proto__''}"
       "\<forall>x. x \<noteq> ''__proto__'' \<longrightarrow> map_option Inr (map_of result x) = lastOutcome x new"
       "extractedSymbols new = classes api @ functions api @ variables api @ enums api"
    by blast
  have j: "buildJsonReport E api jsFile (buildMap api) tr
      = (Inr (JSON_stringify result), tr @ new)"
    using r(1) by (simp add: buildJsonReport_def)
  have k: "\<forall>x. x \<noteq> ''__proto__'' \<longrightarrow>
             (x \<in> set (map fst result))
               = (x \<in> set (classes api) \<union> set (functions api) \<union> set (variables api)
                      \<union> set (enums api))
             \<and> map_option Inr (map_of result x) = lastOutcome x new"
    using r(3,4) by blast
  from r(1,2,5) j k have "\<exists>result new.
               buildResult E api jsFile (buildMap api) tr = (Inr result, tr @ new)
               \<and> buildJsonReport E api jsFile (buildMap api) tr
                   = (Inr (JSON_stringify result), tr @ new)
               \<and> distinct (map fst result)
               \<and> extractedSymbols new
                   = classes api @ functions api @ variables api @ enums api
               \<and> (\<forall>x. x \<noteq> ''__proto__'' \<longrightarrow>
                     (x \<in> set (map fst result))
                       = (x \<in> set (classes api) \<union> set (functions api) \<union> set (variables api)
                              \<union> set (enums api))
                     \<and> map_option Inr (map_of result x) = lastOutcome x new)"
    by blast
  with buildMap_lookup buildMap_distinct show ?thesis by (intro conjI allI)
qed

lemma overlap_extractions:
  "\<forall>h. \<forall>x\<in>set (classes overlapApi) \<union> set (functions overlapApi) \<union> set (variables overlapApi)
         \<union> set (enums overlapApi).
     \<exists>d. extractDependenciesAndSize countingEnv h x jsFile m = Inr d"
  by (simp add: countingEnv_def countingExtractor_def)

lemma overlap_map: "buildMap overlapApi = [(''Dup'', ''enums''), (''f'', ''functions'')]"
  by (simp add: buildMap_def overlapApi_def)

lemma overlap_members:
  "classes overlapApi = [''Dup'']" "functions overlapApi = [''f'']"
  "variables overlapApi = []" "enums overlapApi = [''Dup'']"
  by (simp_all add: overlapApi_def)

lemma overlap_result:
  "buildResult countingEnv overlapApi ''bundle.js'' (buildMap overlapApi) []
     = (Inr [(''Dup'', \<lparr>dependencies = [], size_bytes = 2\<rparr>),
             (''f'', \<lparr>dependencies = [], size_bytes = 1\<rparr>)],
        [ExtractDependenciesAndSize ''Dup'' ''bundle.js''
           (Inr \<lparr>dependencies = [], size_bytes = 0\<rparr>),
         ExtractDependenciesAndSize ''f'' ''bundle.js''
           (Inr \<lparr>dependencies = [], size_bytes = 1\<rparr>),
         ExtractDependenciesAndSize ''Dup'' ''bundle.js''
           (Inr \<lparr>dependencies = [], size_bytes = 2\<rparr>)])"
  by (simp add: buildResult_def overlap_members countingEnv_def countingExtractor_def Let_def
      setProperty_def)

theorem buildJsonReport_overwrites_witness:
  "buildMap overlapApi = [(''Dup'', ''enums''), (''f'', ''functions'')]
   \<and> rev [c\<leftarrow>keyOrder overlapApi. ''Dup'' \<in> set (member overlapApi c)] = [Enums, Classes]
   \<and> buildResult countingEnv overlapApi ''bundle.js'' (buildMap overlapApi) []
     = (Inr [(''Dup'', \<lparr>dependencies = [], size_bytes = 2\<rparr>),
             (''f'', \<lparr>dependencies = [], size_bytes = 1\<rparr>)],
        [ExtractDependenciesAndSize ''Dup'' ''bundle.js''
           (Inr \<lparr>dependencies = [], size_bytes = 0\<rparr>),
         ExtractDependenciesAndSize ''f'' ''bundle.js''
           (Inr \<lparr>dependencies = [], size_bytes = 1\<rparr>),
         ExtractDependenciesAndSize ''Dup'' ''bundle.js''
           (Inr \<lparr>dependencies = [], size_bytes = 2\<rparr>)])
   \<and> (\<exists>result new.
         buildResult countingEnv overlapApi ''bundle.js'' (buildMap overlapApi) []
           = (Inr result, [] @ new)
         \<and> buildJsonReport countingEnv overlapApi ''bundle.js'' (buildMap overlapApi) []
             = (Inr (JSON_stringify result), [] @ new)
         \<and> distinct (map fst result)
         \<and> extractedSymbols new = [''Dup'', ''f'', ''Dup'']
         \<and> (\<forall>x. x \<noteq> ''__proto__'' \<longrightarrow>
               (x \<in> set (map fst result)) = (x \<in> {''Dup'', ''f''})
               \<and> map_option Inr (map_of result x) = lastOutcome x new))"
proof -
  have 5: "set (classes overlapApi) \<union> set (functions overlapApi) \<union> set (variables overlapApi)
         \<union> set (enums overlapApi) = {''Dup'', ''f''}"
    by (auto simp add: overlapApi_def)
  have 6: "classes overlapApi @ functions overlapApi @ variables overlapApi @ enums overlapApi
      = [''Dup'', ''f'', ''Dup'']"
    by (simp add: overlapApi_def)
  have 7: "rev [c\<leftarrow>keyOrder overlapApi. ''Dup'' \<in> set (member overlapApi c)] = [Enums, Classes]"
    by (simp add: overlapApi_def)
  note e = buildJsonReport_overwrites [OF overlap_extractions, of "''bundle.js''" "[]",
      unfolded 5 6, THEN conjunct2, THEN conjunct2]
  from overlap_map 7 overlap_result e show ?thesis by (intro conjI)
qed

section \<open>The report of one module: the serialised text\<close>

lemma digitsOf_10: "digitsOf 10 = ''10''"
  by (simp add: digitsOf.simps hexDigit_def)

lemma digitsOf_25: "digitsOf 25 = ''25''"
  by (simp add: digitsOf.simps hexDigit_def)

lemma gap_spaces: "gap = ''    ''"
  by (simp add: gap_def eval_nat_numeral)

text \<open>
  Claim C2. For the class \<^verbatim>\<open>Bar\<close> and the function \<^verbatim>\<open>foo\<close>, where the
  extractor returns no dependencies and size 10 for \<^verbatim>\<open>foo\<close> and the dependency
  \<^verbatim>\<open>foo\<close> and size 25 for \<^verbatim>\<open>Bar\<close>, \<^verbatim>\<open>buildJsonReport\<close> returns the
  text below: the key \<^verbatim>\<open>Bar\<close> before the key \<^verbatim>\<open>foo\<close>, each level indented
  by four spaces more.
\<close>

theorem buildJsonReport_scenario:
  assumes \<open>classes api = [''Bar'']\<close> and \<open>functions api = [''foo'']\<close>
    and \<open>variables api = []\<close> and \<open>enums api = []\<close>
    and \<open>\<forall>h m. extractDependenciesAndSize E h ''foo'' jsFile m
            = Inr \<lparr>dependencies = [], size_bytes = 10\<rparr>\<close>
    and \<open>\<forall>h m. extractDependenciesAndSize E h ''Bar'' jsFile m
            = Inr \<lparr>dependencies = [''foo''], size_bytes = 25\<rparr>\<close>
  shows \<open>fst (buildJsonReport E api jsFile m tr) =
    Inr (joinWith newline
      [''{'',
       ''    "Bar": {'',
       ''        "dependencies": ['',
       ''            "foo"'',
       ''        ],'',
       ''        "size": 25'',
       ''    },'',
       ''    "foo": {'',
       ''        "dependencies": [],'',
       ''        "size": 10'',
       ''    }'',
       ''}''])\<close>
proof -
  have r: \<open>fst (buildResult E api jsFile m tr)
      = Inr [(''Bar'', \<lparr>dependencies = [''foo''], size_bytes = 25\<rparr>),
             (''foo'', \<lparr>dependencies = [], size_bytes = 10\<rparr>)]\<close>
    using assms by (simp add: buildResult_def Let_def setProperty_def)
  have s: \<open>JSON_stringify [(''Bar'', \<lparr>dependencies = [''foo''], size_bytes = 25\<rparr>),
             (''foo'', \<lparr>dependencies = [], size_bytes = 10\<rparr>)]
     = joinWith newline
      [''{'',
       ''    "Bar": {'',
       ''        "dependencies": ['',
       ''            "foo"'',
       ''        ],'',
       ''        "size": 25'',
       ''    },'',
       ''    "foo": {'',
       ''        "dependencies": [],'',
       ''        "size": 10'',
       ''    }'',
       ''}'']\<close>
    by (simp add: JSON_stringify_def wrapMembers_def SerializeJSONProperty_def
        SerializeExportData_def SerializeJSONArray_def QuoteJSONString_def QuoteJSONChar_def
        NumberToString_def digitsOf_10 digitsOf_25 gap_spaces newline_def Let_def)
  from r obtain tr' where \<open>buildResult E api jsFile m tr
      = (Inr [(''Bar'', \<lparr>dependencies = [''foo''], size_bytes = 25\<rparr>),
              (''foo'', \<lparr>dependencies = [], size_bytes = 10\<rparr>)], tr')\<close>
    by (cases \<open>buildResult E api jsFile m tr\<close>) auto
  then have \<open>fst (buildJsonReport E api jsFile m tr)
      = Inr (JSON_stringify [(''Bar'', \<lparr>dependencies = [''foo''], size_bytes = 25\<rparr>),
              (''foo'', \<lparr>dependencies = [], size_bytes = 10\<rparr>)])\<close>
    by (simp add: buildJsonReport_def)
  with s show ?thesis by (simp only:)
qed

theorem buildJsonReport_scenario_witness:
  \<open>classes sampleApi = [''Bar''] \<and> functions sampleApi = [''foo'']
   \<and> variables sampleApi = [] \<and> enums sampleApi = []
   \<and> (\<forall>h m. extractDependenciesAndSize sampleEnv h ''foo'' ''/ws/pkg/dist/index.esm2017.js'' m
            = Inr \<lparr>dependencies = [], size_bytes = 10\<rparr>)
   \<and> (\<forall>h m. extractDependenciesAndSize sampleEnv h ''Bar'' ''/ws/pkg/dist/index.esm2017.js'' m
            = Inr \<lparr>dependencies = [''foo''], size_bytes = 25\<rparr>)
   \<and> fst (buildJsonReport sampleEnv sampleApi ''/ws/pkg/dist/index.esm2017.js''
             (buildMap sampleApi) []) =
    Inr (joinWith newline
      [''{'',
       ''    "Bar": {'',
       ''        "dependencies": ['',
       ''            "foo"'',
       ''        ],'',
       ''        "size": 25'',
       ''    },'',
       ''    "foo": {'',
       ''        "dependencies": [],'',
       ''        "size": 10'',
       ''    }'',
       ''}''])\<close>
proof -
  have 1: \<open>classes sampleApi = [''Bar'']\<close> and 2: \<open>functions sampleApi = [''foo'']\<close>
    and 3: \<open>variables sampleApi = []\<close> and 4: \<open>enums sampleApi = []\<close>
    by (simp_all add: sampleApi_def)
  have 5: \<open>\<forall>h m. extractDependenciesAndSize sampleEnv h ''foo'' ''/ws/pkg/dist/index.esm2017.js'' m
            = Inr \<lparr>dependencies = [], size_bytes = 10\<rparr>\<close>
    and 6: \<open>\<forall>h m. extractDependenciesAndSize sampleEnv h ''Bar'' ''/ws/pkg/dist/index.esm2017.js'' m
            = Inr \<lparr>dependencies = [''foo''], size_bytes = 25\<rparr>\<close>
    by (simp_all add: sampleEnv_def sampleExtractor_def)
  from buildJsonReport_scenario [OF 1 2 3 4 5 6, of \<open>buildMap sampleApi\<close> \<open>[]\<close>] 1 2 3 4 5 6
  show ?thesis by blast
qed

section \<open>The report of one module: missing input\<close>







section \<open>The action on one directory: a manifest without bundle\<close>

lemma sample_lite_manifest:
  "require sampleEnv (''/ws/pkg/lite'' @ ''/package.json'')
     = Inr (map_of [(''name'', ''@firebase/pkg-lite''), (''typings'', ''index.d.ts'')])"
  by (simp add: sampleEnv_def sampleManifests_def)

text \<open>
  Claim C3. For a directory whose manifest has a \<^verbatim>\<open>typings\<close> entry (a value that
  the test \<^verbatim>\<open>if (packageJson[TYPINGS])\<close> takes as true) and no \<^verbatim>\<open>esm2017\<close>
  entry, \<^verbatim>\<open>generateReportForModule\<close> throws \<^verbatim>\<open>BUNDLE_FILE_DOES_NOT_EXIST\<close>
  with the trace as it found it: no declaration is extracted and
  \<^verbatim>\<open>extractDependenciesAndSize\<close> is not called.
\<close>

theorem generateReportForModule_bundle_missing:
  assumes "existsSync E (path @ ''/package.json'')"
    and "require E (path @ ''/package.json'') = Inr packageJson"
    and "truthy (packageJson TYPINGS)"
    and "\<not> truthy (packageJson BUNDLE)"
  shows "generateReportForModule E path outputDirectory writeFiles uploadToCI tr
           = (Inl (Error BUNDLE_FILE_DOES_NOT_EXIST), tr)"
  using assms by (simp add: generateReportForModule_def)

theorem generateReportForModule_bundle_missing_witness:
  "existsSync sampleEnv (''/ws/pkg/lite'' @ ''/package.json'')
   \<and> require sampleEnv (''/ws/pkg/lite'' @ ''/package.json'')
       = Inr (map_of [(''name'', ''@firebase/pkg-lite''), (''typings'', ''index.d.ts'')])
   \<and> truthy (map_of [(''name'', ''@firebase/pkg-lite''), (''typings'', ''index.d.ts'')] TYPINGS)
   \<and> \<not> truthy (map_of [(''name'', ''@firebase/pkg-lite''), (''typings'', ''index.d.ts'')] BUNDLE)
   \<and> generateReportForModule sampleEnv ''/ws/pkg/lite'' (Some ''/out'') True False []
       = (Inl (Error BUNDLE_FILE_DOES_NOT_EXIST), [])"
proof -
  have 1: "existsSync sampleEnv (''/ws/pkg/lite'' @ ''/package.json'')"
    by (simp add: sampleEnv_def sampleFiles_def)
  have 3: "truthy (map_of [(''name'', ''@firebase/pkg-lite''), (''typings'', ''index.d.ts'')]
             TYPINGS)"
    by (simp add: TYPINGS_def)
  have 4: "\<not> truthy (map_of [(''name'', ''@firebase/pkg-lite''), (''typings'', ''index.d.ts'')]
             BUNDLE)"
    by (simp add: BUNDLE_def)
  show ?thesis
    using generateReportForModule_bundle_missing [OF 1 sample_lite_manifest 3 4]
      1 sample_lite_manifest 3 4
    by blast
qed

section \<open>The traversal: depth\<close>

lemma callExecutor_calls:
  "callExecutor exec loc out wr up s = (r, s1) \<Longrightarrow> calls s1 = calls s @ [loc]"
  by (auto simp add: callExecutor_def split: prod.splits)

lemma descend_Cons: "descend loc (entry # ns) = descend (loc @ ''/'' @ entry) ns"
  by (simp add: descend_def)

lemma descend_Nil: "descend loc [] = loc"
  by (simp add: descend_def)

lemma within_self: "0 \<le> k \<Longrightarrow> within E loc k loc"
  unfolding within_def by (rule exI [of _ "[]"]) (simp add: descend_Nil)

lemma below_within: "below E loc k p \<Longrightarrow> within E loc k p"
  unfolding within_def below_def by blast

lemma within_child:
  assumes "readdirSync E loc = Inr listed" and "entry \<in> set listed"
    and "lstatSync_isDirectory E (loc @ ''/'' @ entry) = Inr True"
    and "within E (loc @ ''/'' @ entry) (k - 1) p"
  shows "below E loc k p"
proof -
  from assms(4) obtain ns where
    ns: "int (length ns) \<le> k - 1" "subdirectories E (loc @ ''/'' @ entry) ns"
        "p = descend (loc @ ''/'' @ entry) ns"
    unfolding within_def by blast
  with assms(1-3) have "entry # ns \<noteq> [] \<and> int (length (entry # ns)) \<le> k
      \<and> subdirectories E loc (entry # ns) \<and> p = descend loc (entry # ns)"
    by (simp add: descend_Cons)
  then show ?thesis unfolding below_def by blast
qed

lemma traverse_calls:
  "traverseDirs E loc out wr up exec level limit s = (r, s')
     \<Longrightarrow> \<exists>new. calls s' = calls s @ new \<and> (\<forall>p\<in>set new. within E loc (limit - level) p)"
  "readdirSync E loc = Inr listed \<Longrightarrow> set names \<subseteq> set listed
     \<Longrightarrow> traverseNames E loc names out wr up exec level limit s = (r, s')
     \<Longrightarrow> \<exists>new. calls s' = calls s @ new \<and> (\<forall>p\<in>set new. below E loc (limit - level) p)"
proof (induction E loc out wr up exec level limit s and E loc names out wr up exec level limit s
       arbitrary: r s' and r s' listed rule: traverseDirs_traverseNames.induct)
  case (1 E loc out wr up exec level limit s)
  show ?case
  proof (cases "level > limit")
    case True
    with "1.prems" show ?thesis by simp
  next
    case False
    obtain r1 s1 where c: "callExecutor exec loc out wr up s = (r1, s1)"
      by (cases "callExecutor exec loc out wr up s")
    then have s1: "calls s1 = calls s @ [loc]" by (rule callExecutor_calls)
    have self: "within E loc (limit - level) loc" using False by (simp add: within_self)
    show ?thesis
    proof (cases r1)
      case (Inl e)
      with "1.prems" False c have "s' = s1" by simp
      with s1 self show ?thesis by simp
    next
      case (Inr u)
      show ?thesis
      proof (cases "readdirSync E loc")
        case (Inl e)
        with "1.prems" False c Inr have "s' = s1" by simp
        with s1 self show ?thesis by simp
      next
        case names: (Inr names)
        with "1.prems" False c Inr have
          t: "traverseNames E loc names out wr up exec level limit s1 = (r, s')" by simp
        from "1.IH" [OF False c [symmetric] Inr names names subset_refl t] obtain new where
          "calls s' = calls s1 @ new" "\<forall>p\<in>set new. below E loc (limit - level) p" by blast
        with s1 self have "calls s' = calls s @ (loc # new)
            \<and> (\<forall>p\<in>set (loc # new). within E loc (limit - level) p)"
          by (simp add: below_within)
        then show ?thesis by blast
      qed
    qed
  qed
next
  case (2 E loc out wr up exec level limit s)
  then show ?case by simp
next
  case (3 E loc entry names out wr up exec level limit s)
  let ?p = "loc @ ''/'' @ entry"
  note listed = "3.prems"(1)
  from "3.prems"(2) have entry: "entry \<in> set listed" and rest: "set names \<subseteq> set listed"
    by simp_all
  note run = "3.prems"(3)
  show ?case
  proof (cases "lstatSync_isDirectory E ?p")
    case (Inl e)
    with run show ?thesis by (simp add: Let_def)
  next
    case (Inr b)
    show ?thesis
    proof (cases b)
      case False
      with Inr have f: "lstatSync_isDirectory E ?p = Inr False" by simp
      with run have
        "traverseNames E loc names out wr up exec level limit s = (r, s')"
        by (simp add: Let_def)
      from "3.IH"(3) [OF refl f refl listed rest this] show ?thesis .
    next
      case True
      with Inr have f: "lstatSync_isDirectory E ?p = Inr True" by simp
      obtain r1 s1 where
        d: "traverseDirs E ?p out wr up exec (level + 1) limit s = (r1, s1)"
        by (cases "traverseDirs E ?p out wr up exec (level + 1) limit s")
      from "3.IH"(1) [OF refl f refl d] obtain n1 where
        n1: "calls s1 = calls s @ n1" "\<forall>p\<in>set n1. within E ?p (limit - (level + 1)) p"
        by auto
      have n1': "\<forall>p\<in>set n1. below E loc (limit - level) p"
      proof
        fix p assume "p \<in> set n1"
        with n1(2) have "within E ?p (limit - level - 1) p" by (simp add: algebra_simps)
        with listed entry f show "below E loc (limit - level) p" by (rule within_child)
      qed
      show ?thesis
      proof (cases r1)
        case (Inl e)
        with run Inr True d have "s' = s1" by (simp add: Let_def)
        with n1(1) n1' show ?thesis by blast
      next
        case u: (Inr u)
        with run Inr True d have
          t: "traverseNames E loc names out wr up exec level limit s1 = (r, s')"
          by (simp add: Let_def)
        from "3.IH"(2) [OF refl f refl d [symmetric] u listed rest t] obtain n2 where
          "calls s' = calls s1 @ n2" "\<forall>p\<in>set n2. below E loc (limit - level) p"
          by auto
        with n1(1) n1' have "calls s' = calls s @ (n1 @ n2)
            \<and> (\<forall>p\<in>set (n1 @ n2). below E loc (limit - level) p)"
          by auto
        then show ?thesis by blast
      qed
    qed
  qed
qed

text \<open>
  Claim C4. In a traversal started at level 0, whatever its outcome, every directory on
  which the executor is called is the root or is reached from the root by going down
  through at most \<^verbatim>\<open>levelLimit\<close> subdirectories, each listed in the one before.
  (With a negative limit the executor is not called.)
\<close>

theorem traverseDirs_depth:
  assumes "traverseDirs E root outputDirectory writeFiles uploadToCI exec 0 levelLimit s = (r, s')"
  shows "\<exists>new. calls s' = calls s @ new
           \<and> (\<forall>p\<in>set new. \<exists>names. int (length names) \<le> levelLimit \<and> subdirectories E root names
                  \<and> p = descend root names)"
  using traverse_calls(1) [OF assms] by (simp add: within_def)

lemma sample_readdir:
  "readdirSync sampleEnv ''/ws/pkg'' = Inr [''package.json'', ''dist'', ''lite'']"
  "readdirSync sampleEnv ''/ws/pkg/dist'' = Inr [''index.d.ts'', ''index.esm2017.js'', ''deep'']"
  "readdirSync sampleEnv ''/ws/pkg/lite'' = Inr [''package.json'', ''index.d.ts'']"
  by (simp_all add: sampleEnv_def sampleDirectories_def)

lemma sample_lstat:
  "lstatSync_isDirectory sampleEnv p = Inr (p \<in> set (map fst sampleDirectories))"
  by (simp add: sampleEnv_def)

lemma sample_calls:
  "calls (snd (traverseDirs sampleEnv ''/ws/pkg'' (Some ''/out'') True False
     (dropPromise (generateReportForModule sampleEnv)) 0 1 \<lparr>calls = [], trace = []\<rparr>))
   = [''/ws/pkg'', ''/ws/pkg/dist'', ''/ws/pkg/lite'']"
  by (simp add: callExecutor_def dropPromise_def sample_readdir sample_lstat
      sampleDirectories_def Let_def)

theorem traverseDirs_depth_witness:
  "calls (snd (traverseDirs sampleEnv ''/ws/pkg'' (Some ''/out'') True False
     (dropPromise (generateReportForModule sampleEnv)) 0 1 \<lparr>calls = [], trace = []\<rparr>))
     = [''/ws/pkg'', ''/ws/pkg/dist'', ''/ws/pkg/lite'']
   \<and> subdirectories sampleEnv ''/ws/pkg'' [''dist'', ''deep'']
   \<and> descend ''/ws/pkg'' [''dist'', ''deep''] = ''/ws/pkg/dist/deep''
   \<and> (\<exists>new. calls (snd (traverseDirs sampleEnv ''/ws/pkg'' (Some ''/out'') True False
            (dropPromise (generateReportForModule sampleEnv)) 0 1 \<lparr>calls = [], trace = []\<rparr>))
          = calls \<lparr>calls = [], trace = []\<rparr> @ new
        \<and> (\<forall>p\<in>set new. \<exists>names. int (length names) \<le> 1
               \<and> subdirectories sampleEnv ''/ws/pkg'' names \<and> p = descend ''/ws/pkg'' names))"
proof -
  have d: "subdirectories sampleEnv ''/ws/pkg'' [''dist'', ''deep'']"
    by (simp add: sample_readdir sample_lstat sampleDirectories_def)
  have e: "descend ''/ws/pkg'' [''dist'', ''deep''] = ''/ws/pkg/dist/deep''"
    by (simp add: descend_def)
  note t = traverseDirs_depth [OF prod.collapse [symmetric], of sampleEnv "''/ws/pkg''"
      "Some ''/out''" True False "dropPromise (generateReportForModule sampleEnv)" 1
      "\<lparr>calls = [], trace = []\<rparr>"]
  from sample_calls d e t show ?thesis by (intro conjI)
qed

section \<open>The entry point: flag combinations\<close>

text \<open>
  Claim C6. When neither \<^verbatim>\<open>--output\<close> nor \<^verbatim>\<open>--ci\<close> is set, \<^verbatim>\<open>main\<close> throws
  \<^verbatim>\<open>REPORT_REDIRECTION_ERROR\<close> and leaves the state as it found it: no event is
  added to the trace, so neither \<^verbatim>\<open>writeReportToFile\<close> nor
  \<^verbatim>\<open>writeReportToDirectory\<close> is called.
\<close>

theorem main_no_redirection:
  "\<not> truthy (output a) \<and> \<not> ci a \<longrightarrow> main E a s = (Inl (Error REPORT_REDIRECTION_ERROR), s)"
  by (simp add: main_def)

theorem main_no_redirection_witness:
  "\<not> truthy (output \<lparr>inputModule = None, inputDtsFile = None, inputBundleFile = None,
        ci = False, output = None\<rparr>)
   \<and> \<not> ci \<lparr>inputModule = None, inputDtsFile = None, inputBundleFile = None,
        ci = False, output = None\<rparr>
   \<and> main sampleEnv \<lparr>inputModule = None, inputDtsFile = None, inputBundleFile = None,
        ci = False, output = None\<rparr> \<lparr>calls = [], trace = []\<rparr>
     = (Inl (Error REPORT_REDIRECTION_ERROR), \<lparr>calls = [], trace = []\<rparr>)"
  using main_no_redirection [of "\<lparr>inputModule = None, inputDtsFile = None,
        inputBundleFile = None, ci = False, output = None\<rparr>" sampleEnv
        "\<lparr>calls = [], trace = []\<rparr>"]
  by simp

text \<open>
  Claim C9. With \<^verbatim>\<open>--inputDtsFile\<close> and \<^verbatim>\<open>--inputBundleFile\<close> both set,
  \<^verbatim>\<open>--ci\<close> set and \<^verbatim>\<open>--output\<close> absent, \<^verbatim>\<open>main\<close> throws
  \<^verbatim>\<open>INVALID_FLAG_COMBINATION\<close> and leaves the state as it found it: no adhoc
  analysis is made.
\<close>

theorem main_adhoc_needs_output:
  "truthy (inputDtsFile a) \<and> truthy (inputBundleFile a) \<and> ci a \<and> \<not> truthy (output a)
    \<longrightarrow> main E a s = (Inl (Error INVALID_FLAG_COMBINATION), s)"
  by (simp add: main_def)

theorem main_adhoc_needs_output_witness:
  "truthy (inputDtsFile \<lparr>inputModule = None, inputDtsFile = Some ''/ws/pkg/dist/index.d.ts'',
        inputBundleFile = Some ''/ws/pkg/dist/index.esm2017.js'', ci = True, output = None\<rparr>)
   \<and> truthy (inputBundleFile \<lparr>inputModule = None,
        inputDtsFile = Some ''/ws/pkg/dist/index.d.ts'',
        inputBundleFile = Some ''/ws/pkg/dist/index.esm2017.js'', ci = True, output = None\<rparr>)
   \<and> main sampleEnv \<lparr>inputModule = None, inputDtsFile = Some ''/ws/pkg/dist/index.d.ts'',
        inputBundleFile = Some ''/ws/pkg/dist/index.esm2017.js'', ci = True, output = None\<rparr>
        \<lparr>calls = [], trace = []\<rparr>
     = (Inl (Error INVALID_FLAG_COMBINATION), \<lparr>calls = [], trace = []\<rparr>)"
  using main_adhoc_needs_output [of "\<lparr>inputModule = None,
        inputDtsFile = Some ''/ws/pkg/dist/index.d.ts'',
        inputBundleFile = Some ''/ws/pkg/dist/index.esm2017.js'', ci = True, output = None\<rparr>"
        sampleEnv "\<lparr>calls = [], trace = []\<rparr>"]
  by simp

text \<open>
  Claim C5, as stated: with \<^verbatim>\<open>--inputDtsFile\<close> set and \<^verbatim>\<open>--inputBundleFile\<close> not
  set, \<^verbatim>\<open>main\<close> throws \<^verbatim>\<open>INVALID_FLAG_COMBINATION\<close>. It fails when, besides,
  neither \<^verbatim>\<open>--output\<close> nor \<^verbatim>\<open>--ci\<close> is set: the test of the redirection comes
  first, and \<^verbatim>\<open>main\<close> throws \<^verbatim>\<open>REPORT_REDIRECTION_ERROR\<close>.
\<close>

theorem main_dts_only_counterexample:
  "fst (main sampleEnv \<lparr>inputModule = None, inputDtsFile = Some ''/ws/pkg/dist/index.d.ts'',
          inputBundleFile = None, ci = False, output = None\<rparr> \<lparr>calls = [], trace = []\<rparr>)
     = Inl (Error REPORT_REDIRECTION_ERROR)
   \<and> fst (main sampleEnv \<lparr>inputModule = None, inputDtsFile = Some ''/ws/pkg/dist/index.d.ts'',
          inputBundleFile = None, ci = False, output = None\<rparr> \<lparr>calls = [], trace = []\<rparr>)
     \<noteq> Inl (Error INVALID_FLAG_COMBINATION)"
  by (simp add: main_def)

text \<open>
  Claim C5, amended: with \<^verbatim>\<open>--inputDtsFile\<close> set, \<^verbatim>\<open>--inputBundleFile\<close> not set,
  and at least one of \<^verbatim>\<open>--output\<close> and \<^verbatim>\<open>--ci\<close> set, \<^verbatim>\<open>main\<close> throws
  \<^verbatim>\<open>INVALID_FLAG_COMBINATION\<close> and leaves the state as it found it.
\<close>

theorem main_dts_only:
  "truthy (inputDtsFile a) \<and> \<not> truthy (inputBundleFile a) \<and> (truthy (output a) \<or> ci a)
    \<longrightarrow> main E a s = (Inl (Error INVALID_FLAG_COMBINATION), s)"
  by (auto simp add: main_def)

theorem main_dts_only_witness:
  "truthy (inputDtsFile \<lparr>inputModule = None, inputDtsFile = Some ''/ws/pkg/dist/index.d.ts'',
        inputBundleFile = None, ci = False, output = Some ''/out/report.json''\<rparr>)
   \<and> \<not> truthy (inputBundleFile \<lparr>inputModule = None,
        inputDtsFile = Some ''/ws/pkg/dist/index.d.ts'',
        inputBundleFile = None, ci = False, output = Some ''/out/report.json''\<rparr>)
   \<and> truthy (output \<lparr>inputModule = None, inputDtsFile = Some ''/ws/pkg/dist/index.d.ts'',
        inputBundleFile = None, ci = False, output = Some ''/out/report.json''\<rparr>)
   \<and> main sampleEnv \<lparr>inputModule = None, inputDtsFile = Some ''/ws/pkg/dist/index.d.ts'',
        inputBundleFile = None, ci = False, output = Some ''/out/report.json''\<rparr>
        \<lparr>calls = [], trace = []\<rparr>
     = (Inl (Error INVALID_FLAG_COMBINATION), \<lparr>calls = [], trace = []\<rparr>)"
  using main_dts_only [of "\<lparr>inputModule = None,
        inputDtsFile = Some ''/ws/pkg/dist/index.d.ts'',
        inputBundleFile = None, ci = False, output = Some ''/out/report.json''\<rparr>"
        sampleEnv "\<lparr>calls = [], trace = []\<rparr>"]
  by simp

section \<open>Analytics: the internal component\<close>

text \<open>
  Claim C8. When the lookup of the analytics client in the container fails, at
  \<^verbatim>\<open>getProvider\<close> or at \<^verbatim>\<open>getImmediate\<close>, \<^verbatim>\<open>internalFactory\<close> throws one
  \<^verbatim>\<open>INTEROP_COMPONENT_REG_FAILED\<close> error whose reason is the failure of the lookup.
  When the lookup succeeds, it returns an object whose one operation \<^verbatim>\<open>logEvent\<close>
  passes its three arguments, with the client, to \<^verbatim>\<open>logEvent\<close> of the API.
\<close>

theorem internalFactory_adapter:
  "(\<forall>e. getProvider container ANALYTICS_TYPE = Inl e
        \<longrightarrow> internalFactory ANALYTICS_TYPE api_logEvent container
              = Inl (FirebaseError INTEROP_COMPONENT_REG_FAILED e))
   \<and> (\<forall>provider e. getProvider container ANALYTICS_TYPE = Inr provider
          \<and> getImmediate container provider = Inl e
        \<longrightarrow> internalFactory ANALYTICS_TYPE api_logEvent container
              = Inl (FirebaseError INTEROP_COMPONENT_REG_FAILED e))
   \<and> (\<forall>provider analytics. getProvider container ANALYTICS_TYPE = Inr provider
          \<and> getImmediate container provider = Inr analytics
        \<longrightarrow> (\<exists>adapter. internalFactory ANALYTICS_TYPE api_logEvent container = Inr adapter
               \<and> (\<forall>eventName eventParams options.
                     logEvent adapter eventName eventParams options
                       = api_logEvent analytics eventName eventParams options)))"
  by (simp add: internalFactory_def ERROR_FACTORY_create_def)

theorem internalFactory_adapter_witness:
  "getProvider sampleContainer ''analytics-exp'' = Inr ''analytics provider''
   \<and> getImmediate sampleContainer ''analytics provider'' = Inr 7
   \<and> (\<exists>adapter.
         internalFactory ''analytics-exp'' sampleLogEvent sampleContainer = Inr adapter
         \<and> logEvent adapter ''login'' (Some ''method'') None
             = sampleLogEvent 7 ''login'' (Some ''method'') None)
   \<and> getProvider emptyContainer ''analytics-exp'' = Inl ''no provider''
   \<and> internalFactory ''analytics-exp'' sampleLogEvent emptyContainer
       = Inl (FirebaseError INTEROP_COMPONENT_REG_FAILED ''no provider'')"
proof -
  have 1: "getProvider sampleContainer ''analytics-exp'' = Inr ''analytics provider''"
    and 2: "getImmediate sampleContainer ''analytics provider'' = Inr 7"
    by (simp_all add: sampleContainer_def)
  have 3: "getProvider emptyContainer ''analytics-exp'' = Inl ''no provider''"
    by (simp add: emptyContainer_def)
  from internalFactory_adapter [of sampleContainer "''analytics-exp''" sampleLogEvent] 1 2
  obtain adapter where
    "internalFactory ''analytics-exp'' sampleLogEvent sampleContainer = Inr adapter"
    "\<forall>eventName eventParams options. logEvent adapter eventName eventParams options
        = sampleLogEvent 7 eventName eventParams options"
    by blast
  then have 4: "\<exists>adapter.
         internalFactory ''analytics-exp'' sampleLogEvent sampleContainer = Inr adapter
         \<and> logEvent adapter ''login'' (Some ''method'') None
             = sampleLogEvent 7 ''login'' (Some ''method'') None"
    by blast
  from internalFactory_adapter [of emptyContainer "''analytics-exp''" sampleLogEvent] 3
  have 5: "internalFactory ''analytics-exp'' sampleLogEvent emptyContainer
       = Inl (FirebaseError INTEROP_COMPONENT_REG_FAILED ''no provider'')"
    by blast
  from 1 2 3 4 5 show ?thesis by blast
qed

end
